theory Spec2Isabelle
  imports Complex_Main
begin

section \<open>Exceptions and results\<close>

text \<open>
  The pipeline of \<^verbatim>\<open>src/segment.py\<close> raises nothing itself: every failure is an exception
  of Python or of a library it calls. The first six constructors are those exception
  classes, \<open>TriggerFailed\<close> is the state Prefect gives a task whose upstream task failed. The
  last three are the error kinds named by the specification; no path of the
  source constructs them, they are here so that statements about them can be written.
\<close>

datatype py_exception =
    NameError | TypeError | KeyError | ValueError | AttributeError | OverflowError
  | TriggerFailed
  | UnsupportedAlgorithm | InvalidParameter | NoElbowFound

section \<open>Tabular values\<close>

text \<open>
  A pandas \<^verbatim>\<open>DataFrame\<close>: the ordered column labels and the rows, each row holding one cell
  per column. A cell is a number or missing (\<^verbatim>\<open>NaN\<close>, here \<open>None\<close>). The number of rows is the
  length of the index, so a frame without columns still has rows (empty ones).
\<close>

type_synonym cell = "real option"

record frame =
  columns :: "string list"
  rows :: "cell list list"

definition wf_frame :: "frame \<Rightarrow> bool" where
  "wf_frame df = list_all (\<lambda>r. length r = length (columns df)) (rows df)"

text \<open>A two-dimensional numpy array: its shape and its items.\<close>

record ndarray =
  shape :: "nat \<times> nat"
  item :: "nat \<Rightarrow> nat \<Rightarrow> real"

text \<open>
  \<^verbatim>\<open>pd.DataFrame(a, columns=cols)\<close> on a two-dimensional array: pandas raises \<^verbatim>\<open>ValueError\<close>
  when the number of labels is not the array's second dimension.
\<close>

definition DataFrame :: "ndarray \<Rightarrow> string list \<Rightarrow> py_exception + frame" where
  "DataFrame a cols =
     (if length cols \<noteq> snd (shape a) then Inl ValueError
      else Inr \<lparr>columns = cols,
                rows = map (\<lambda>i. map (\<lambda>j. Some (item a i j)) [0..<snd (shape a)])
                         [0..<fst (shape a)]\<rparr>)"

text \<open>
  \<^verbatim>\<open>df[c]\<close>: \<^verbatim>\<open>KeyError\<close> when no column is labelled \<open>c\<close>, the column as a series when one
  is, and the frame of all the columns labelled \<open>c\<close> when several are.
\<close>

datatype selection = Series "cell list" | SubFrame frame

definition getitem :: "frame \<Rightarrow> string \<Rightarrow> py_exception + selection" where
  "getitem df c =
     (case filter (\<lambda>i. columns df ! i = c) [0..<length (columns df)] of
        [] \<Rightarrow> Inl KeyError
      | [i] \<Rightarrow> Inr (Series (map (\<lambda>r. r ! i) (rows df)))
      | js \<Rightarrow> Inr (SubFrame \<lparr>columns = map (\<lambda>_. c) js,
                               rows = map (\<lambda>r. map (\<lambda>i. r ! i) js) (rows df)\<rparr>))"

text \<open>
  \<^verbatim>\<open>df[c] = vals\<close> with an array of values. A frame whose index is empty takes its index
  from the values (its other columns become missing); otherwise pandas raises
  \<^verbatim>\<open>ValueError\<close> when the number of values is not the number of rows. Every column
  labelled \<open>c\<close> is overwritten; when there is none, the column is appended.
\<close>

definition set_row :: "string \<Rightarrow> string list \<Rightarrow> cell list \<Rightarrow> cell \<Rightarrow> cell list" where
  "set_row c cols r v =
     (if c \<in> set cols then map2 (\<lambda>name old. if name = c then v else old) cols r
      else r @ [v])"

definition setitem :: "frame \<Rightarrow> string \<Rightarrow> cell list \<Rightarrow> py_exception + frame" where
  "setitem df c vals =
     (let base = (if rows df = [] \<and> vals \<noteq> []
                  then replicate (length vals) (replicate (length (columns df)) None)
                  else rows df)
      in if length vals \<noteq> length base then Inl ValueError
         else Inr \<lparr>columns = (if c \<in> set (columns df) then columns df else columns df @ [c]),
                   rows = map2 (set_row c (columns df)) base vals\<rparr>)"

section \<open>Estimators and the libraries\<close>

text \<open>
  The classes the module imports from scikit-learn (lines 11-12), the objects that calling
  them gives, and fitted models. A k-means model holds \<^verbatim>\<open>n_clusters\<close> and
  \<^verbatim>\<open>cluster_centers_\<close>; an agglomerative or spectral model holds \<^verbatim>\<open>labels_\<close>.
  \<open>Foreign\<close> stands for an object of any other class.
\<close>

datatype clusterer = AgglomerativeClustering | KMeans | SpectralClustering


datatype pyobject = Model clusterer "int option" | PCAModel | Foreign

datatype model =
    KMeansFitted int "real list list"
  | LabelsFitted clusterer "int option" "nat list"
  | PCAFitted
  | ForeignFitted

text \<open>The arguments of the two calls of the source: \<^verbatim>\<open>()\<close> and \<^verbatim>\<open>(n_clusters=k)\<close>.\<close>

datatype call_args = NoArgs | NClusters "int option"

text \<open>What \<^verbatim>\<open>KElbowVisualizer\<close> holds after \<^verbatim>\<open>fit\<close>; \<^verbatim>\<open>elbow_value_\<close> is \<^verbatim>\<open>None\<close> when it found no knee.\<close>

record elbow =
  elbow_value :: "int option"
  elbow_score :: real

text \<open>
  Python and the third-party libraries are not part of the repository. What they compute
  is a parameter of the model, one field each:
  \<^item> \<open>pca_project\<close>: the numbers of PCA, item \<open>i j\<close> of the transformed array;
  \<^item> \<open>interpreter_names\<close>: the names the interpreter binds by itself (built-in names,
    keywords, module attributes such as \<^verbatim>\<open>__name__\<close>);
  \<^item> \<open>eval_other\<close>: what evaluating and calling a string gives when the string is not one of
    the scikit-learn names of the module and not an unbound name;
  \<^item> \<open>elbow_fit\<close>: \<^verbatim>\<open>KElbowVisualizer(model, metric=m).fit(df)\<close>, where the model below
    does not write it out;
  \<^item> \<open>savefig\<close>, \<open>wandb_log\<close>: saving the elbow figure to a path and logging the given keys to
    the experiment tracker, which may raise;
  \<^item> \<open>kmeans_centers\<close>: the numbers of k-means, coordinate \<open>d\<close> of centre \<open>j\<close>;
  \<^item> \<open>kmeans_distance\<close>: the number k-means computes in floating point to compare the
    centres for a row (the squared norm of the centre minus twice its product with the
    row), given the row and the centre;
  \<^item> \<open>draw_clusters\<close>: drawing the scatter plot of the clusters from the three coordinates
    and the colours, saving it to a path and logging it, which may raise;
  \<^item> \<open>labels_fit\<close>: \<^verbatim>\<open>fit\<close> of an agglomerative or spectral estimator, giving \<^verbatim>\<open>labels_\<close>;
  \<^item> \<open>foreign_fit\<close>, \<open>foreign_predict\<close>: \<^verbatim>\<open>fit\<close> and \<^verbatim>\<open>predict\<close> of an object of another class;
  \<^item> \<open>run_context\<close>: the entries of Prefect's context and the inputs of a task run, as
    text, which a result location may refer to.
\<close>

record libs =
  pca_project :: "int \<Rightarrow> ndarray \<Rightarrow> nat \<Rightarrow> nat \<Rightarrow> real"
  interpreter_names :: "string list"
  eval_other :: "string \<Rightarrow> call_args \<Rightarrow> py_exception + pyobject"
  elbow_fit :: "pyobject \<Rightarrow> string \<Rightarrow> frame \<Rightarrow> py_exception + elbow"
  savefig :: "string \<Rightarrow> py_exception + unit"
  wandb_log :: "string list \<Rightarrow> py_exception + unit"
  kmeans_centers :: "nat \<Rightarrow> ndarray \<Rightarrow> nat \<Rightarrow> nat \<Rightarrow> real"
  kmeans_distance :: "real list \<Rightarrow> real list \<Rightarrow> real"
  draw_clusters ::
    "selection \<Rightarrow> selection \<Rightarrow> selection \<Rightarrow> selection \<Rightarrow> string \<Rightarrow> py_exception + unit"
  labels_fit :: "clusterer \<Rightarrow> int option \<Rightarrow> frame \<Rightarrow> py_exception + nat list"
  foreign_fit :: "frame \<Rightarrow> py_exception + unit"
  foreign_predict :: "frame \<Rightarrow> py_exception + nat list"
  run_context :: "string \<Rightarrow> string option"

section \<open>Dimensionality reduction\<close>

text \<open>
  Input validation of scikit-learn (\<^verbatim>\<open>check_array\<close>), which \<^verbatim>\<open>PCA\<close> and \<^verbatim>\<open>KMeans\<close> apply
  to the frame they are given: \<^verbatim>\<open>ValueError\<close> on a missing cell, on a frame without rows
  and on a frame without columns.
\<close>

definition check_array :: "frame \<Rightarrow> py_exception + ndarray" where
  "check_array df =
     (if list_ex (\<lambda>r. None \<in> set r) (rows df) then Inl ValueError
      else if length (rows df) < 1 then Inl ValueError
      else if length (columns df) < 1 then Inl ValueError
      else Inr \<lparr>shape = (length (rows df), length (columns df)),
                item = (\<lambda>i j. the (rows df ! i ! j))\<rparr>)"

text \<open>
  \<^verbatim>\<open>PCA(n_components=n).fit_transform(df)\<close>: the checks of scikit-learn and the shape of
  its result, (samples, components), are written out. It raises \<^verbatim>\<open>ValueError\<close> unless
  \<open>0 \<le> n \<le> min samples features\<close>.
\<close>

definition PCA_fit_transform :: "libs \<Rightarrow> int \<Rightarrow> frame \<Rightarrow> py_exception + ndarray" where
  "PCA_fit_transform py n_components df =
     (case check_array df of
        Inl e \<Rightarrow> Inl e
      | Inr X \<Rightarrow>
          if n_components < 0 \<or> int (min (fst (shape X)) (snd (shape X))) < n_components
          then Inl ValueError
          else Inr \<lparr>shape = (fst (shape X), nat n_components),
                    item = pca_project py n_components X\<rparr>)"

text \<open>\<^verbatim>\<open>reduce_dimension\<close> (lines 29-34).\<close>

definition reduce_dimension :: "libs \<Rightarrow> frame \<Rightarrow> int \<Rightarrow> string list \<Rightarrow> py_exception + frame" where
  "reduce_dimension py df n_components cols =
     (case PCA_fit_transform py n_components df of
        Inl e \<Rightarrow> Inl e
      | Inr a \<Rightarrow> DataFrame a cols)"

text \<open>
  \<^verbatim>\<open>get_3d_projection\<close> (lines 37-40). The dictionary is built entry by entry, so the first
  missing column raises.
\<close>

definition get_3d_projection :: "frame \<Rightarrow> py_exception + (string \<times> selection) list" where
  "get_3d_projection pca_df =
     (case getitem pca_df ''col1'' of
        Inl e \<Rightarrow> Inl e
      | Inr cx \<Rightarrow>
          (case getitem pca_df ''col2'' of
             Inl e \<Rightarrow> Inl e
           | Inr cy \<Rightarrow>
               (case getitem pca_df ''col3'' of
                  Inl e \<Rightarrow> Inl e
                | Inr cz \<Rightarrow> Inr [(''x'', cx), (''y'', cy), (''z'', cz)])))"

section \<open>From the algorithm string to an estimator\<close>












section \<open>Choosing the number of clusters\<close>

record cluster_config =
  algorithm :: string
  metric :: string




section \<open>Fitting and predicting\<close>




text \<open>
  \<^verbatim>\<open>KMeans.predict\<close>: after the validation of the data (\<^verbatim>\<open>ValueError\<close> also when the number
  of columns is not that of the centres), each row gets the index of the centre for
  which the number computed by \<open>kmeans_distance\<close> is least, the lowest index among equals.
\<close>

fun argmin :: "real list \<Rightarrow> nat" where
  "argmin [] = 0"
| "argmin [d] = 0"
| "argmin (d # ds) = (if d \<le> ds ! argmin ds then 0 else Suc (argmin ds))"

definition nearest :: "libs \<Rightarrow> real list list \<Rightarrow> real list \<Rightarrow> nat" where
  "nearest py centers x = argmin (map (kmeans_distance py x) centers)"

definition KMeans_predict :: "libs \<Rightarrow> real list list \<Rightarrow> frame \<Rightarrow> py_exception + nat list" where
  "KMeans_predict py centers df =
     (case check_array df of
        Inl e \<Rightarrow> Inl e
      | Inr X \<Rightarrow>
          (case centers of
             [] \<Rightarrow> Inl ValueError
           | c # cs \<Rightarrow>
               if snd (shape X) \<noteq> length c then Inl ValueError
               else Inr (map (\<lambda>i. nearest py centers (map (item X i) [0..<snd (shape X)]))
                           [0..<fst (shape X)])))"

text \<open>
  \<^verbatim>\<open>predict\<close> (lines 105-107) calls the model's own \<^verbatim>\<open>predict\<close>. Of the three clustering
  classes only \<^verbatim>\<open>KMeans\<close> has that method; on the others, and on a fitted \<^verbatim>\<open>PCA\<close>, the
  attribute lookup raises \<^verbatim>\<open>AttributeError\<close>.
\<close>

fun predict :: "libs \<Rightarrow> model \<Rightarrow> frame \<Rightarrow> py_exception + nat list" where
  "predict py (KMeansFitted k centers) df = KMeans_predict py centers df"
| "predict py (LabelsFitted c k ls) df = Inl AttributeError"
| "predict py PCAFitted df = Inl AttributeError"
| "predict py ForeignFitted df = foreign_predict py df"

section \<open>Writing the labels\<close>

definition label_cells :: "nat list \<Rightarrow> cell list" where
  "label_cells preds = map (\<lambda>l. Some (real l)) preds"

text \<open>
  \<^verbatim>\<open>insert_clusters_to_df\<close> (lines 110-114): \<^verbatim>\<open>df.assign\<close> copies the frame and sets the
  column on the copy, so the frame it is given stays as it was.
\<close>

definition insert_clusters_to_df :: "frame \<Rightarrow> nat list \<Rightarrow> py_exception + frame" where
  "insert_clusters_to_df df clusters = setitem df ''clusters'' (label_cells clusters)"

text \<open>
  \<^verbatim>\<open>plot_clusters\<close> (lines 117-139) sets the column on the frame it is given: the caller's
  reduced dataset is changed in place. The function returns nothing; the model returns
  the frame as the call leaves it, with the outcome. The lookups in the dictionary and in
  the frame are written out; drawing, saving and logging are \<open>draw_clusters\<close>. Creating the
  empty figure (lines 123-124) is taken to return.
\<close>

definition dict_get :: "(string \<times> 'a) list \<Rightarrow> string \<Rightarrow> py_exception + 'a" where
  "dict_get d key = (case map_of d key of None \<Rightarrow> Inl KeyError | Some v \<Rightarrow> Inr v)"

definition plot_clusters ::
  "libs \<Rightarrow> frame \<Rightarrow> nat list \<Rightarrow> (string \<times> selection) list \<Rightarrow> string
     \<Rightarrow> frame \<times> (py_exception + unit)" where
  "plot_clusters py pca_df preds projections image_path =
     (case setitem pca_df ''clusters'' (label_cells preds) of
        Inl e \<Rightarrow> (pca_df, Inl e)
      | Inr changed \<Rightarrow>
          (changed,
           (case dict_get projections ''x'' of
              Inl e \<Rightarrow> Inl e
            | Inr px \<Rightarrow>
                (case dict_get projections ''y'' of
                   Inl e \<Rightarrow> Inl e
                 | Inr py' \<Rightarrow>
                     (case dict_get projections ''z'' of
                        Inl e \<Rightarrow> Inl e
                      | Inr pz \<Rightarrow>
                          (case getitem changed ''clusters'' of
                             Inl e \<Rightarrow> Inl e
                           | Inr colours \<Rightarrow> draw_clusters py px py' pz colours image_path))))))"

section \<open>Stored artifacts\<close>

text \<open>
  \<^verbatim>\<open>str.format\<close> on a template of literal text and replacement fields \<^verbatim>\<open>{name}\<close>:
  \<^verbatim>\<open>KeyError\<close> for a name without a value, \<^verbatim>\<open>ValueError\<close> for a brace without its partner.
  Doubled braces and format specifications, which the template of the source does not
  use, are not modelled. The second argument is the field being read, if any.
\<close>

fun format_from :: "(string \<Rightarrow> string option) \<Rightarrow> string option \<Rightarrow> string \<Rightarrow> py_exception + string" where
  "format_from kw None [] = Inr []"
| "format_from kw (Some f) [] = Inl ValueError"
| "format_from kw None (c # cs) =
     (if c = CHR ''{'' then format_from kw (Some []) cs
      else if c = CHR ''}'' then Inl ValueError
      else (case format_from kw None cs of Inl e \<Rightarrow> Inl e | Inr t \<Rightarrow> Inr (c # t)))"
| "format_from kw (Some f) (c # cs) =
     (if c = CHR ''}''
      then (case kw f of
              None \<Rightarrow> Inl KeyError
            | Some v \<Rightarrow> (case format_from kw None cs of Inl e \<Rightarrow> Inl e | Inr t \<Rightarrow> Inr (v @ t)))
      else format_from kw (Some (f @ [c])) cs)"

definition py_format :: "string \<Rightarrow> (string \<Rightarrow> string option) \<Rightarrow> py_exception + string" where
  "py_format template kw = format_from kw None template"

text \<open>\<^verbatim>\<open>os.path.join\<close> of a directory and a file name.\<close>

definition path_join :: "string \<Rightarrow> string \<Rightarrow> string" where
  "path_join d f =
     (if f \<noteq> [] \<and> hd f = CHR ''/'' then f
      else if d = [] \<or> last d = CHR ''/'' then d @ f
      else d @ ''/'' @ f)"

text \<open>\<^verbatim>\<open>OUTPUT_DIR\<close>, \<^verbatim>\<open>OUTPUT_FILE\<close> and \<^verbatim>\<open>TASK_OUTPUT\<close> (lines 20-26).\<close>

definition OUTPUT_DIR :: string where
  "OUTPUT_DIR = ''data/final/''"

definition OUTPUT_FILE :: string where
  "OUTPUT_FILE = ''{task_name}.csv''"

record local_result =
  result_dir :: string
  result_location :: string

definition TASK_OUTPUT :: local_result where
  "TASK_OUTPUT = \<lparr>result_dir = OUTPUT_DIR, result_location = OUTPUT_FILE\<rparr>"

text \<open>
  Where a task's result is kept: the location template, formatted with the task's name,
  Prefect's context and the inputs of the run, under the directory of the result.
\<close>

definition task_context :: "libs \<Rightarrow> string \<Rightarrow> string \<Rightarrow> string option" where
  "task_context py name = (run_context py)(''task_name'' \<mapsto> name)"

definition target_path :: "local_result \<Rightarrow> (string \<Rightarrow> string option) \<Rightarrow> py_exception + string" where
  "target_path r ctx =
     (case py_format (result_location r) ctx of
        Inl e \<Rightarrow> Inl e
      | Inr f \<Rightarrow> Inr (path_join (result_dir r) f))"

section \<open>Example inputs\<close>

text \<open>A dataset of three rows and three numeric columns.\<close>

definition ex_frame :: frame where
  "ex_frame = \<lparr>columns = [''a'', ''b'', ''c''],
               rows = [[Some 1, Some 0, Some 2], [Some 0, Some 1, Some 2],
                       [Some 3, Some 1, Some 0]]\<rparr>"

text \<open>
  Libraries for the examples. The projection keeps the first components as they are and
  the centres of k-means are the first rows; the distance is the formula of scikit-learn,
  which floating point computes exactly on the small whole numbers of the examples;
  every string that is not a name of the module raises \<^verbatim>\<open>NameError\<close>, as an expression over
  unbound names does; saving, logging and drawing return, the drawing when it is given
  four series. The statements about the examples do not depend on the numbers chosen
  here, except where they say so.
\<close>

fun is_series :: "selection \<Rightarrow> bool" where
  "is_series (Series vs) = True"
| "is_series (SubFrame df) = False"

definition ex_libs :: libs where
  "ex_libs =
     \<lparr>pca_project = (\<lambda>n X. item X),
      interpreter_names = [''print'', ''len'', ''dict'', ''None'', ''True'', ''False''],
      eval_other = (\<lambda>s args. Inl NameError),
      elbow_fit = (\<lambda>m metric df. Inr \<lparr>elbow_value = Some 2, elbow_score = 1\<rparr>),
      savefig = (\<lambda>path. Inr ()),
      wandb_log = (\<lambda>keys. Inr ()),
      kmeans_centers = (\<lambda>k X. item X),
      kmeans_distance =
        (\<lambda>x c. sum_list (map (\<lambda>a. a * a) c) - 2 * sum_list (map2 (\<lambda>a b. a * b) x c)),
      draw_clusters =
        (\<lambda>px py' pz colours path.
           if list_all is_series [px, py', pz, colours] then Inr () else Inl ValueError),
      labels_fit = (\<lambda>c k df. Inr (replicate (length (rows df) - 1) 0 @ [1])),
      foreign_fit = (\<lambda>df. Inr ()),
      foreign_predict = (\<lambda>df. Inl AttributeError),
      run_context = Map.empty\<rparr>"


text \<open>Three identical rows.\<close>

definition ex_twins :: frame where
  "ex_twins = \<lparr>columns = [''col1'', ''col2''],
               rows = [[Some 1, Some 1], [Some 1, Some 1], [Some 1, Some 1]]\<rparr>"

text \<open>A reduced dataset of twelve identical rows, as PCA gives for twelve identical records.\<close>

definition ex_flat :: frame where
  "ex_flat = \<lparr>columns = [''col1'', ''col2'', ''col3''],
              rows = replicate 12 [Some 0, Some 0, Some 0]\<rparr>"

text \<open>A reduced dataset of three rows, and its three-axis projection.\<close>

definition ex_reduced :: frame where
  "ex_reduced = \<lparr>columns = [''col1'', ''col2'', ''col3''],
                 rows = [[Some 1, Some 0, Some 2], [Some 0, Some 1, Some 2],
                         [Some 3, Some 1, Some 0]]\<rparr>"

definition ex_projection :: "(string \<times> selection) list" where
  "ex_projection =
     [(''x'', Series [Some 1, Some 0, Some 3]), (''y'', Series [Some 0, Some 1, Some 1]),
      (''z'', Series [Some 2, Some 2, Some 0])]"

section \<open>Basic facts\<close>

lemma getitem_KeyError_iff: "getitem df c = Inl KeyError \<longleftrightarrow> c \<notin> set (columns df)"
proof -
  have "filter (\<lambda>i. columns df ! i = c) [0..<length (columns df)] = []
        \<longleftrightarrow> c \<notin> set (columns df)"
    by (auto simp: filter_empty_conv in_set_conv_nth)
  then show ?thesis
    by (auto simp: getitem_def split: list.splits)
qed

lemma getitem_Inl: "getitem df c = Inl e \<Longrightarrow> e = KeyError"
  by (auto simp: getitem_def split: list.splits)

lemma getitem_succeeds_iff: "(\<exists>s. getitem df c = Inr s) \<longleftrightarrow> c \<in> set (columns df)"
proof (cases "getitem df c")
  case (Inl e)
  with getitem_Inl [OF Inl] getitem_KeyError_iff [of df c] show ?thesis by auto
next
  case (Inr s)
  with getitem_KeyError_iff [of df c] show ?thesis by auto
qed

lemma DataFrame_columns: "DataFrame a cols = Inr df \<Longrightarrow> columns df = cols"
  by (auto simp: DataFrame_def split: if_splits)

lemma reduce_dimension_columns:
  "reduce_dimension py df n cols = Inr pca_df \<Longrightarrow> columns pca_df = cols"
  by (auto simp: reduce_dimension_def split: sum.splits dest: DataFrame_columns)

lemma reduce_dimension_ex_frame:
  "reduce_dimension ex_libs ex_frame 3 cols =
     (if length cols \<noteq> 3 then Inl ValueError
      else Inr \<lparr>columns = cols,
                rows = [[Some 1, Some 0, Some 2], [Some 0, Some 1, Some 2],
                        [Some 3, Some 1, Some 0]]\<rparr>)"
  by (simp add: reduce_dimension_def PCA_fit_transform_def check_array_def ex_frame_def
      DataFrame_def ex_libs_def upt_rec)

section \<open>The three-axis projection\<close>

text \<open>
  C10. The projection step returns exactly when the reduced dataset has columns labelled
  col1, col2 and col3. The reduced dataset's labels are the configured name list, so for
  every name list that omits one of the three the projection of a successful reduction
  fails (with \<^verbatim>\<open>KeyError\<close>): the outcome depends on the names, not on how many there are.
\<close>

theorem get_3d_projection_needs_named_columns:
  "((\<exists>p. get_3d_projection pca_df = Inr p)
      \<longleftrightarrow> {''col1'', ''col2'', ''col3''} \<subseteq> set (columns pca_df))
   \<and> (reduce_dimension py df n cols = Inr reduced
        \<and> \<not> {''col1'', ''col2'', ''col3''} \<subseteq> set cols
      \<longrightarrow> get_3d_projection reduced = Inl KeyError)"
proof -
  have a: "(\<exists>p. get_3d_projection d = Inr p)
      \<longleftrightarrow> {''col1'', ''col2'', ''col3''} \<subseteq> set (columns d)" for d
    using getitem_succeeds_iff [of d "''col1''"] getitem_succeeds_iff [of d "''col2''"]
      getitem_succeeds_iff [of d "''col3''"]
    by (auto simp: get_3d_projection_def split: sum.splits)
  have b: "get_3d_projection d = Inl e \<Longrightarrow> e = KeyError" for d e
    by (auto simp: get_3d_projection_def split: sum.splits dest: getitem_Inl)
  have c: "\<not> {''col1'', ''col2'', ''col3''} \<subseteq> set (columns d)
      \<Longrightarrow> get_3d_projection d = Inl KeyError" for d
    using a [of d] b [of d] by (cases "get_3d_projection d") auto
  show ?thesis
    using a [of pca_df] c [of reduced] reduce_dimension_columns [of py df n cols reduced]
    by blast
qed

text \<open>
  Two name lists of the same length on the same data: with col1, col2, col3 the projection
  returns, with pc1, pc2, pc3 it raises.
\<close>

theorem get_3d_projection_needs_named_columns_witness:
  "(\<exists>p. get_3d_projection
          \<lparr>columns = [''col1'', ''col2'', ''col3''],
           rows = [[Some 1, Some 0, Some 2], [Some 0, Some 1, Some 2],
                   [Some 3, Some 1, Some 0]]\<rparr> = Inr p)
   \<and> reduce_dimension ex_libs ex_frame 3 [''pc1'', ''pc2'', ''pc3''] =
       Inr \<lparr>columns = [''pc1'', ''pc2'', ''pc3''],
            rows = [[Some 1, Some 0, Some 2], [Some 0, Some 1, Some 2],
                    [Some 3, Some 1, Some 0]]\<rparr>
   \<and> get_3d_projection
         \<lparr>columns = [''pc1'', ''pc2'', ''pc3''],
          rows = [[Some 1, Some 0, Some 2], [Some 0, Some 1, Some 2],
                  [Some 3, Some 1, Some 0]]\<rparr> = Inl KeyError"
  using get_3d_projection_needs_named_columns
      [of "\<lparr>columns = [''col1'', ''col2'', ''col3''],
            rows = [[Some 1, Some 0, Some 2], [Some 0, Some 1, Some 2],
                    [Some 3, Some 1, Some 0]]\<rparr>"
          ex_libs ex_frame 3 "[''pc1'', ''pc2'', ''pc3'']"
          "\<lparr>columns = [''pc1'', ''pc2'', ''pc3''],
            rows = [[Some 1, Some 0, Some 2], [Some 0, Some 1, Some 2],
                    [Some 3, Some 1, Some 0]]\<rparr>"]
  by (simp add: reduce_dimension_ex_frame)

section \<open>The shape of the reduced dataset\<close>

lemma check_array_Inr:
  "check_array df = Inr X \<Longrightarrow>
     shape X = (length (rows df), length (columns df)) \<and> 0 < length (rows df)
     \<and> 0 < length (columns df) \<and> item X = (\<lambda>i j. the (rows df ! i ! j))"
  by (auto simp: check_array_def split: if_splits)





section \<open>The algorithm string\<close>








section \<open>The key of a stored artifact\<close>

lemma py_format_OUTPUT_FILE:
  "kw ''task_name'' = Some name \<Longrightarrow> py_format OUTPUT_FILE kw = Inr (name @ ''.csv'')"
  by (simp add: py_format_def OUTPUT_FILE_def)

lemma target_path_TASK_OUTPUT:
  "ctx ''task_name'' = Some name
   \<Longrightarrow> target_path TASK_OUTPUT ctx = Inr (path_join ''data/final/'' (name @ ''.csv''))"
  by (simp add: target_path_def TASK_OUTPUT_def py_format_OUTPUT_FILE OUTPUT_DIR_def)

lemma path_join_inject:
  "path_join ''data/final/'' (a @ ''.csv'') = path_join ''data/final/'' (b @ ''.csv'') \<Longrightarrow> a = b"
proof -
  have abs: "path_join ''data/final/'' f = f" if "f \<noteq> []" "hd f = CHR ''/''" for f
    using that by (simp add: path_join_def)
  have rel: "path_join ''data/final/'' f = ''data/final/'' @ f" if "f = [] \<or> hd f \<noteq> CHR ''/''" for f
    using that by (auto simp: path_join_def)
  assume eq: "path_join ''data/final/'' (a @ ''.csv'') = path_join ''data/final/'' (b @ ''.csv'')"
  let ?fa = "a @ ''.csv''" and ?fb = "b @ ''.csv''"
  have ne: "?fa \<noteq> []" "?fb \<noteq> []" by simp_all
  consider (aa) "hd ?fa = CHR ''/''" "hd ?fb = CHR ''/''"
    | (ar) "hd ?fa = CHR ''/''" "hd ?fb \<noteq> CHR ''/''"
    | (ra) "hd ?fa \<noteq> CHR ''/''" "hd ?fb = CHR ''/''"
    | (rr) "hd ?fa \<noteq> CHR ''/''" "hd ?fb \<noteq> CHR ''/''"
    by blast
  then show ?thesis
  proof cases
    case aa
    with eq abs [of ?fa] abs [of ?fb] show ?thesis by simp
  next
    case ar
    with eq abs [of ?fa] rel [of ?fb] have "?fa = ''data/final/'' @ ?fb" by simp
    then have "hd ?fa = CHR ''d''" by simp
    with ar show ?thesis by simp
  next
    case ra
    with eq abs [of ?fb] rel [of ?fa] have "?fb = ''data/final/'' @ ?fa" by simp
    then have "hd ?fb = CHR ''d''" by simp
    with ra show ?thesis by simp
  next
    case rr
    with eq rel [of ?fa] rel [of ?fb] show ?thesis by simp
  qed
qed

text \<open>
  C2, as amended. The key under which a cached node's artifact is kept is its location
  \<^verbatim>\<open>data/final/<task_name>.csv\<close>, formatted from the task's name alone. It is the same
  whatever the rest of the context and the inputs of the run are, so two runs that differ
  in an upstream parameter give every node the key it had: the key is no fingerprint of
  the inputs and forces no recomputation. Tasks of different names have different keys,
  so the entry of one node is never the entry of another.
\<close>

theorem artifact_key_is_task_name:
  "(ctx ''task_name'' = Some name
      \<longrightarrow> target_path TASK_OUTPUT ctx = Inr (path_join ''data/final/'' (name @ ''.csv'')))
   \<and> target_path TASK_OUTPUT (task_context py name)
       = target_path TASK_OUTPUT (task_context py' name)
   \<and> (name \<noteq> name'
      \<longrightarrow> target_path TASK_OUTPUT (task_context py name)
            \<noteq> target_path TASK_OUTPUT (task_context py' name'))"
proof -
  have t: "target_path TASK_OUTPUT (task_context q n)
             = Inr (path_join ''data/final/'' (n @ ''.csv''))" for q n
    by (rule target_path_TASK_OUTPUT) (simp add: task_context_def)
  have "target_path TASK_OUTPUT (task_context py name)
            \<noteq> target_path TASK_OUTPUT (task_context py' name')" if "name \<noteq> name'"
    using that path_join_inject [of name name'] by (auto simp: t)
  then show ?thesis
    using target_path_TASK_OUTPUT [of ctx name] by (simp add: t)
qed

theorem artifact_key_is_task_name_witness:
  "target_path TASK_OUTPUT
      [''task_name'' \<mapsto> ''reduce_dimension'', ''n_components'' \<mapsto> ''2'']
     = Inr ''data/final/reduce_dimension.csv''
   \<and> target_path TASK_OUTPUT (task_context ex_libs ''reduce_dimension'')
       \<noteq> target_path TASK_OUTPUT (task_context ex_libs ''insert_clusters_to_df'')"
  using artifact_key_is_task_name
    [of "[''task_name'' \<mapsto> ''reduce_dimension'', ''n_components'' \<mapsto> ''2'']"
      "''reduce_dimension''" ex_libs ex_libs "''insert_clusters_to_df''"]
  by (simp add: path_join_def)

text \<open>
  The claim as stated fails for two runs that differ in \<^verbatim>\<open>n_components\<close>: the key of the
  reducer and the key of the downstream cached node are the same in both.
\<close>

theorem artifact_key_ignores_inputs_counterexample:
  "target_path TASK_OUTPUT
      (task_context (ex_libs\<lparr>run_context := [''n_components'' \<mapsto> ''2'']\<rparr>) ''reduce_dimension'')
     = Inr ''data/final/reduce_dimension.csv''
   \<and> target_path TASK_OUTPUT
      (task_context (ex_libs\<lparr>run_context := [''n_components'' \<mapsto> ''3'']\<rparr>) ''reduce_dimension'')
     = Inr ''data/final/reduce_dimension.csv''
   \<and> target_path TASK_OUTPUT
      (task_context (ex_libs\<lparr>run_context := [''n_components'' \<mapsto> ''2'']\<rparr>) ''insert_clusters_to_df'')
     = target_path TASK_OUTPUT
      (task_context (ex_libs\<lparr>run_context := [''n_components'' \<mapsto> ''3'']\<rparr>) ''insert_clusters_to_df'')"
  by (simp add: target_path_def TASK_OUTPUT_def OUTPUT_DIR_def OUTPUT_FILE_def py_format_def
      task_context_def path_join_def)

end
